theory Spec2Isabelle
  imports Main "HOL-Library.Sublist"
begin

section \<open>Data model\<close>

text \<open>
  A block is an ordered list of (name, type) columns; it carries no rows. A name list
  (\<open>Names\<close>) is a list of column names, a name set (\<open>NameSet\<close>) a set of them.
\<close>

type_synonym Block = "(string \<times> string) list"
type_synonym Names = "string list"
type_synonym NameSet = "string set"

text \<open>
  Errors as values: the internal-consistency failure \<open>LOGICAL_ERROR\<close> with its message,
  the failure of a checked vector read, any failure of an external collaborator, and the
  unchecked read of an empty vector, which has no defined behaviour in the source.
\<close>

datatype error = LOGICAL_ERROR string | OUT_OF_RANGE | OTHER_ERROR string | UNDEFINED_BEHAVIOUR

record DataStream =
  header :: Block

text \<open>
  Modelled from the spec: \<open>SortColumnDescription\<close> is declared outside these files. A
  sort key is built from a column name alone (\<open>emplace_back(key_name)\<close>), so only the
  name is kept.
\<close>

datatype SortColumnDescription = SortColumnDescription (column_name: string)

type_synonym SortDescription = "SortColumnDescription list"

section \<open>getSortDescription\<close>

text \<open>
  \<open>used_keys.insert(key_name)\<close> on a set returns the updated set together with a flag
  that tells whether the element was newly inserted.
\<close>

definition NameSet_insert :: "string \<Rightarrow> NameSet \<Rightarrow> NameSet \<times> bool" where
  "NameSet_insert key_name used_keys = (insert key_name used_keys, key_name \<notin> used_keys)"

text \<open>
  The loop of \<open>getSortDescription\<close> over \<open>key_names\<close>; the state is the pair of
  \<open>used_keys\<close> and \<open>sort_description\<close>.
\<close>

fun getSortDescription_loop ::
  "Names \<Rightarrow> NameSet \<times> SortDescription \<Rightarrow> NameSet \<times> SortDescription" where
  "getSortDescription_loop [] st = st"
| "getSortDescription_loop (key_name # rest) (used_keys, sort_description) =
     (case NameSet_insert key_name used_keys of
        (used_keys', inserted) \<Rightarrow>
          if \<not> inserted then getSortDescription_loop rest (used_keys', sort_description)
          else getSortDescription_loop rest
                 (used_keys', sort_description @ [SortColumnDescription key_name]))"

definition getSortDescription :: "Names \<Rightarrow> SortDescription" where
  "getSortDescription key_names = snd (getSortDescription_loop key_names ({}, []))"

text \<open>
  The spec's wording of the realized key list: the names of the input at the positions
  where the name has not occurred before, in input order.
\<close>

definition first_occurrences :: "Names \<Rightarrow> Names" where
  "first_occurrences key_names =
     map (\<lambda>i. key_names ! i)
       (filter (\<lambda>i. key_names ! i \<notin> set (take i key_names)) [0..<length key_names])"

section \<open>External collaborators\<close>

text \<open>
  Modelled from the spec: \<open>JoinPipelineType\<close> is declared outside these files, which name
  only its value \<open>YShaped\<close> (the spec's Symmetric shape). The spec's execution shape has
  one other value, BuildProbe.
\<close>

datatype JoinPipelineType = YShaped | BuildProbe

text \<open>
  Modelled from the spec: \<open>JoinTableSide\<close> is declared outside these files; the spec's side
  tag is left or right.
\<close>

datatype JoinTableSide = Left | Right

text \<open>
  Modelled from the spec: \<open>IJoin\<close> is declared outside these files. The join operator is
  opaque; these files consult its execution shape (\<open>pipelineType()\<close>), whether it is
  already materialized (\<open>isFilled()\<close>) and whether it carries a totals row
  (\<open>getTotals()\<close>, read as a truth value).
\<close>

record IJoin =
  pipelineType :: JoinPipelineType
  isFilled :: bool
  getTotals :: bool

text \<open>
  Modelled from the spec: \<open>FullSortingMergeJoin\<close> is declared outside these files. The
  sort-merge-capable operator reports, per side, its required key-column names and its
  already-guaranteed sort prefix, and carries the settings of the sort; the settings are
  opaque (a type parameter).
\<close>

record 'st FullSortingMergeJoin =
  getKeyNames :: "JoinTableSide \<Rightarrow> Names"
  getPrefixSortDesctiption :: "JoinTableSide \<Rightarrow> SortDescription"
  getSortSettings :: 'st

text \<open>
  Modelled from the spec: \<open>SortingStep\<close> is declared outside these files. A sorting
  sub-step is a full sort over a key list with a row limit (0 is no limit);
  \<open>convertToFinishSorting\<close> turns it into a finish sort constrained to a prefix.
\<close>

datatype SortingStep_Type = Full | FinishSorting

record 'st SortingStep =
  sorting_input_stream :: DataStream
  sorting_type :: SortingStep_Type
  result_description :: SortDescription
  prefix_description :: SortDescription
  limit :: nat
  sort_settings :: 'st
  optimize_sorting_by_input_stream_properties :: bool
  sorting_step_description :: string

text \<open>
  Modelled from the spec: the constructor of \<open>SortingStep\<close> used here (input stream, sort
  description, limit, settings, a flag) is outside these files; it builds a full sort
  over the description it is given.
\<close>

definition SortingStep_new ::
  "DataStream \<Rightarrow> SortDescription \<Rightarrow> nat \<Rightarrow> 'st \<Rightarrow> bool \<Rightarrow> 'st SortingStep" where
  "SortingStep_new input_stream' description' limit' settings' optimize' =
     \<lparr> sorting_input_stream = input_stream',
       sorting_type = Full,
       result_description = description',
       prefix_description = [],
       limit = limit',
       sort_settings = settings',
       optimize_sorting_by_input_stream_properties = optimize',
       sorting_step_description = [] \<rparr>"

text \<open>
  Modelled from the spec: \<open>SortingStep::convertToFinishSorting\<close> is outside these files; it
  converts the sort into a finish sort constrained to the given prefix.
\<close>

definition convertToFinishSorting :: "'st SortingStep \<Rightarrow> SortDescription \<Rightarrow> 'st SortingStep" where
  "convertToFinishSorting st prefix_description' =
     st\<lparr> sorting_type := FinishSorting, prefix_description := prefix_description' \<rparr>"

text \<open>
  Modelled from the spec: \<open>setStepDescription\<close> is outside these files; it records a
  human-readable description.
\<close>

definition SortingStep_setStepDescription :: "'st SortingStep \<Rightarrow> string \<Rightarrow> 'st SortingStep" where
  "SortingStep_setStepDescription st description = st\<lparr> sorting_step_description := description \<rparr>"

text \<open>
  Modelled from the spec: \<open>JoiningTransform\<close> is declared outside these files. A
  join-applying transform is bound to the branch's input schema, the step's output
  schema, the shared join operator, the row-count limit, the flag marking the totals
  branch, the synthesized-totals flag and the shared finish counter. The counter is held
  by reference: an address into the store of finish counters, \<open>None\<close> for a null pointer.
\<close>

record JoiningTransform =
  input_header :: Block
  output_header :: Block
  transform_join :: IJoin
  transform_max_block_size :: nat
  on_totals :: bool
  default_totals :: bool
  finish_counter :: "nat option"

text \<open>
  Processors of a pipeline: the join transforms built here, and any other processor, known
  by its name and the header it produces.
\<close>

datatype Processor = JoiningTransformProcessor JoiningTransform | OtherProcessor string Block

type_synonym Processors = "Processor list"

fun Processor_getOutputHeader :: "Processor \<Rightarrow> Block" where
  "Processor_getOutputHeader (JoiningTransformProcessor t) = output_header t"
| "Processor_getOutputHeader (OtherProcessor name h) = h"

text \<open>
  Modelled from the spec: the finish counter is a shared counter seeded with a branch
  count. Shared counters live in a store, addressed by position; \<open>make_shared\<close> allocates
  a new one and returns its address.
\<close>

type_synonym FinishCounter = nat
type_synonym FinishCounterStore = "FinishCounter list"

definition make_shared_FinishCounter :: "FinishCounterStore \<Rightarrow> nat \<Rightarrow> FinishCounterStore \<times> nat" where
  "make_shared_FinishCounter store n = (store @ [n], length store)"

text \<open>
  Modelled from the spec: \<open>QueryPipelineBuilder\<close> is declared outside these files. A
  pipeline has a number of parallel (non-totals) branches of one schema and possibly a
  totals branch; the builder can tell and set its branch count, tell whether it has a
  totals branch, add an empty default one, and append one transform per branch from a
  factory that is told the branch's schema and kind.
\<close>

datatype StreamType = MainStream | Totals

record QueryPipelineBuilder =
  pipeline_header :: Block
  num_streams :: nat
  has_totals :: bool
  pipeline_processors :: Processors

text \<open>
  Modelled from the spec: \<open>QueryPipelineBuilder::hasTotals\<close> and \<open>getNumStreams\<close> are
  outside these files; they tell whether the pipeline has a totals branch, and its number
  of parallel (non-totals) branches.
\<close>

definition hasTotals :: "QueryPipelineBuilder \<Rightarrow> bool" where
  "hasTotals pipeline = has_totals pipeline"

definition getNumStreams :: "QueryPipelineBuilder \<Rightarrow> nat" where
  "getNumStreams pipeline = num_streams pipeline"

text \<open>
  Modelled from the spec: \<open>QueryPipelineBuilder::addDefaultTotals\<close> is outside these files;
  it adds an empty default totals branch.
\<close>

definition addDefaultTotals :: "QueryPipelineBuilder \<Rightarrow> QueryPipelineBuilder" where
  "addDefaultTotals pipeline = pipeline\<lparr> has_totals := True \<rparr>"

text \<open>
  Modelled from the spec: \<open>QueryPipelineBuilder::resize\<close> is outside these files; it
  resizes the pipeline to exactly the given number of branches.
\<close>

definition resize :: "QueryPipelineBuilder \<Rightarrow> nat \<Rightarrow> QueryPipelineBuilder" where
  "resize pipeline n = pipeline\<lparr> num_streams := n \<rparr>"

text \<open>
  Modelled from the spec: \<open>QueryPipelineBuilder::addSimpleTransform\<close> is outside these
  files; it appends one transform per branch (each non-totals branch, then the totals
  branch if there is one), made by a factory that is told the branch's schema and kind.
  The pipeline's schema becomes the one the transforms produce.
\<close>

definition addSimpleTransform ::
  "(Block \<Rightarrow> StreamType \<Rightarrow> Processor) \<Rightarrow> QueryPipelineBuilder \<Rightarrow> QueryPipelineBuilder" where
  "addSimpleTransform getter pipeline =
     (let created =
            replicate (num_streams pipeline) (getter (pipeline_header pipeline) MainStream)
            @ (if has_totals pipeline then [getter (pipeline_header pipeline) Totals] else [])
      in pipeline\<lparr> pipeline_header :=
                     (case created of [] \<Rightarrow> pipeline_header pipeline
                      | t # _ \<Rightarrow> Processor_getOutputHeader t),
                   pipeline_processors := pipeline_processors pipeline @ created \<rparr>)"

text \<open>
  \<open>std::vector::at\<close>, the checked read of a vector, and \<open>front()\<close> or \<open>[0]\<close>, its
  unchecked first element.
\<close>

definition at :: "'a list \<Rightarrow> nat \<Rightarrow> error + 'a" where
  "at xs i = (if i < length xs then Inr (xs ! i) else Inl OUT_OF_RANGE)"

definition front :: "'a list \<Rightarrow> error + 'a" where
  "front xs = (case xs of [] \<Rightarrow> Inl UNDEFINED_BEHAVIOUR | x # _ \<Rightarrow> Inr x)"

section \<open>Plan steps\<close>

text \<open>
  Modelled from the spec: \<open>IQueryPlanStep\<close> and \<open>ITransformingStep\<close> are declared outside
  these files. Every step has its input stream descriptors, its output stream descriptor
  (set by every constructor), the processors it collected and a description; a
  single-input step also has its declared traits.

  Counts and sizes (\<open>size_t\<close> in the source) are natural numbers: they are compared and
  passed on, never computed with. The members \<open>left_sorting\<close> and \<open>right_sorting\<close> of
  JoinStep, which no operation reads or writes, and the operations \<open>describePipeline\<close> and
  \<open>getSortingJoin\<close>, which change nothing, are left out.
\<close>

record IQueryPlanStep =
  input_streams :: "DataStream list"
  output_stream :: DataStream
  processors :: Processors
  step_description :: string

record DataStreamTraits =
  preserves_distinct_columns :: bool
  returns_single_stream :: bool
  preserves_number_of_streams :: bool
  preserves_sorting :: bool

record TransformTraits =
  preserves_number_of_rows :: bool

record Traits =
  data_stream_traits :: DataStreamTraits
  transform_traits :: TransformTraits

record ITransformingStep = IQueryPlanStep +
  traits :: Traits

definition getDataStreamTraits :: "'a ITransformingStep_scheme \<Rightarrow> DataStreamTraits" where
  "getDataStreamTraits s = data_stream_traits (traits s)"

record FilledJoinStep = ITransformingStep +
  join :: IJoin
  max_block_size :: nat

record 'st SortForJoinStep = ITransformingStep +
  sorting_join :: "'st FullSortingMergeJoin"
  join_side :: JoinTableSide
  sorting_step :: "'st SortingStep option"

record JoinStep = IQueryPlanStep +
  join :: IJoin
  max_block_size :: nat
  max_streams :: nat
  keep_left_read_in_order :: bool

text \<open>
  Defined outside these files and taken as parameters by the operations below:
  \<open>JoiningTransform::transformHeader\<close> (the operator's projection of a schema),
  \<open>ITransformingStep::createOutputStream\<close>, the two merge primitives of the pipeline
  builder, \<open>SortingStep::transformPipeline\<close> and the printing of a side tag. A merge
  primitive is handed the step's processors and returns them as collected, together with
  the merged pipeline or its failure.
\<close>

type_synonym TransformHeader = "Block \<Rightarrow> IJoin \<Rightarrow> Block"

type_synonym CreateOutputStream = "DataStream \<Rightarrow> Block \<Rightarrow> DataStreamTraits \<Rightarrow> DataStream"

type_synonym JoinPipelinesYShaped =
  "QueryPipelineBuilder \<Rightarrow> QueryPipelineBuilder \<Rightarrow> IJoin \<Rightarrow> Block \<Rightarrow> nat \<Rightarrow> Processors
   \<Rightarrow> Processors \<times> (error + QueryPipelineBuilder)"

type_synonym JoinPipelinesRightLeft =
  "QueryPipelineBuilder \<Rightarrow> QueryPipelineBuilder \<Rightarrow> IJoin \<Rightarrow> Block \<Rightarrow> nat \<Rightarrow> nat \<Rightarrow> bool
   \<Rightarrow> Processors \<Rightarrow> Processors \<times> (error + QueryPipelineBuilder)"

type_synonym ('st, 'b) SortingStep_transformPipeline =
  "'st SortingStep \<Rightarrow> QueryPipelineBuilder \<Rightarrow> 'b \<Rightarrow> error + QueryPipelineBuilder"

subsection \<open>JoinStep\<close>

definition JoinStep_new ::
  "TransformHeader \<Rightarrow> DataStream \<Rightarrow> DataStream \<Rightarrow> IJoin \<Rightarrow> nat \<Rightarrow> nat \<Rightarrow> bool \<Rightarrow> JoinStep" where
  "JoinStep_new transformHeader left_stream right_stream join' max_block_size' max_streams'
       keep_left_read_in_order' =
     \<lparr> input_streams = [left_stream, right_stream],
       output_stream = \<lparr> header = transformHeader (header left_stream) join' \<rparr>,
       processors = [],
       step_description = [],
       join = join',
       max_block_size = max_block_size',
       max_streams = max_streams',
       keep_left_read_in_order = keep_left_read_in_order' \<rparr>"

text \<open>
  \<open>updatePipeline\<close> returns the step (its processors as collected by the merge) and the
  built pipeline or the error raised.
\<close>

definition JoinStep_updatePipeline ::
  "JoinPipelinesYShaped \<Rightarrow> JoinPipelinesRightLeft \<Rightarrow> JoinStep \<Rightarrow> QueryPipelineBuilder list
   \<Rightarrow> JoinStep \<times> (error + QueryPipelineBuilder)" where
  "JoinStep_updatePipeline joinPipelinesYShaped joinPipelinesRightLeft s pipelines =
     (if length pipelines \<noteq> 2 then
        (s, Inl (LOGICAL_ERROR ''JoinStep expect two input steps''))
      else if pipelineType (join s) = YShaped then
        (case joinPipelinesYShaped (pipelines ! 0) (pipelines ! 1) (join s)
                (header (output_stream s)) (max_block_size s) (processors s) of
           (collected, Inl e) \<Rightarrow> (s\<lparr> processors := collected \<rparr>, Inl e)
         | (collected, Inr joined_pipeline) \<Rightarrow>
             (s\<lparr> processors := collected \<rparr>, Inr (resize joined_pipeline (max_streams s))))
      else
        (case joinPipelinesRightLeft (pipelines ! 0) (pipelines ! 1) (join s)
                (header (output_stream s)) (max_block_size s) (max_streams s)
                (keep_left_read_in_order s) (processors s) of
           (collected, result) \<Rightarrow> (s\<lparr> processors := collected \<rparr>, result)))"

definition allowPushDownToRight :: "JoinStep \<Rightarrow> bool" where
  "allowPushDownToRight s = (pipelineType (join s) = YShaped)"

text \<open>
  \<open>updateInputStream\<close> returns the updated step, or the error raised by a checked read;
  the step is untouched when the read fails.
\<close>

definition updateInputStream ::
  "TransformHeader \<Rightarrow> JoinStep \<Rightarrow> DataStream \<Rightarrow> nat \<Rightarrow> error + JoinStep" where
  "updateInputStream transformHeader s new_input_stream idx =
     (if idx = 0 then
        (case at (input_streams s) 1 of
           Inl e \<Rightarrow> Inl e
         | Inr right_stream \<Rightarrow>
             Inr (s\<lparr> input_streams := [new_input_stream, right_stream],
                     output_stream :=
                       \<lparr> header = transformHeader (header new_input_stream) (join s) \<rparr> \<rparr>))
      else
        (case at (input_streams s) 0 of
           Inl e \<Rightarrow> Inl e
         | Inr left_stream \<Rightarrow> Inr (s\<lparr> input_streams := [left_stream, new_input_stream] \<rparr>)))"

subsection \<open>FilledJoinStep\<close>

definition getStorageJoinTraits :: Traits where
  "getStorageJoinTraits =
     \<lparr> data_stream_traits =
         \<lparr> preserves_distinct_columns = False,
           returns_single_stream = False,
           preserves_number_of_streams = True,
           preserves_sorting = False \<rparr>,
       transform_traits = \<lparr> preserves_number_of_rows = False \<rparr> \<rparr>"

text \<open>
  The constructor of the base class \<open>ITransformingStep\<close> is outside these files: as the
  spec has it, the step stores its single input descriptor, the output descriptor made
  from the output schema, and the traits it is given. The constructor then checks that
  the operator is filled.
\<close>

definition FilledJoinStep_new ::
  "TransformHeader \<Rightarrow> CreateOutputStream \<Rightarrow> DataStream \<Rightarrow> IJoin \<Rightarrow> nat
   \<Rightarrow> error + FilledJoinStep" where
  "FilledJoinStep_new transformHeader createOutputStream input_stream join' max_block_size' =
     (let s = \<lparr> input_streams = [input_stream],
                output_stream =
                  createOutputStream input_stream (transformHeader (header input_stream) join')
                    (data_stream_traits getStorageJoinTraits),
                processors = [],
                step_description = [],
                traits = getStorageJoinTraits,
                FilledJoinStep.join = join',
                FilledJoinStep.max_block_size = max_block_size' \<rparr>
      in if \<not> isFilled (FilledJoinStep.join s) then
           Inl (LOGICAL_ERROR ''FilledJoinStep expects Join to be filled'')
         else Inr s)"

text \<open>
  \<open>transformPipeline\<close> changes the pipeline and allocates the finish counter; it leaves
  the step as it is.
\<close>

definition FilledJoinStep_transformPipeline ::
  "FilledJoinStep \<Rightarrow> FinishCounterStore \<Rightarrow> QueryPipelineBuilder
   \<Rightarrow> FinishCounterStore \<times> QueryPipelineBuilder" where
  "FilledJoinStep_transformPipeline s store pipeline =
     (let (pipeline1, default_totals') =
            (if \<not> hasTotals pipeline \<and> getTotals (FilledJoinStep.join s)
             then (addDefaultTotals pipeline, True)
             else (pipeline, False));
          (store', finish_counter') = make_shared_FinishCounter store (getNumStreams pipeline1)
      in (store',
          addSimpleTransform
            (\<lambda>header' stream_type.
               let on_totals' = (stream_type = Totals);
                   counter = (if on_totals' then None else Some finish_counter')
               in JoiningTransformProcessor
                    \<lparr> input_header = header',
                      output_header = header (output_stream s),
                      transform_join = FilledJoinStep.join s,
                      transform_max_block_size = FilledJoinStep.max_block_size s,
                      on_totals = on_totals',
                      default_totals = default_totals',
                      finish_counter = counter \<rparr>)
            pipeline1))"

definition FilledJoinStep_updateOutputStream ::
  "TransformHeader \<Rightarrow> CreateOutputStream \<Rightarrow> FilledJoinStep \<Rightarrow> error + FilledJoinStep" where
  "FilledJoinStep_updateOutputStream transformHeader createOutputStream s =
     (case front (input_streams s) of
        Inl e \<Rightarrow> Inl e
      | Inr input_stream \<Rightarrow>
          Inr (s\<lparr> output_stream :=
                    createOutputStream input_stream
                      (transformHeader (header input_stream) (FilledJoinStep.join s))
                      (getDataStreamTraits s) \<rparr>))"

subsection \<open>SortForJoinStep\<close>

definition getSortTraits :: Traits where
  "getSortTraits =
     \<lparr> data_stream_traits =
         \<lparr> preserves_distinct_columns = True,
           returns_single_stream = True,
           preserves_number_of_streams = False,
           preserves_sorting = False \<rparr>,
       transform_traits = \<lparr> preserves_number_of_rows = True \<rparr> \<rparr>"

definition SortForJoinStep_new ::
  "CreateOutputStream \<Rightarrow> DataStream \<Rightarrow> 'st FullSortingMergeJoin \<Rightarrow> JoinTableSide
   \<Rightarrow> 'st SortForJoinStep" where
  "SortForJoinStep_new createOutputStream input_stream join_ptr join_side' =
     \<lparr> input_streams = [input_stream],
       output_stream =
         createOutputStream input_stream (header input_stream)
           (data_stream_traits getSortTraits),
       processors = [],
       step_description = [],
       traits = getSortTraits,
       sorting_join = join_ptr,
       join_side = join_side',
       sorting_step = None \<rparr>"

text \<open>
  \<open>transformPipeline\<close> returns the step (with the sorting sub-step it built) and the
  pipeline as transformed by the sub-step, or the error raised. Logging is left out.
\<close>

definition SortForJoinStep_transformPipeline ::
  "('st, 'b) SortingStep_transformPipeline \<Rightarrow> (JoinTableSide \<Rightarrow> string) \<Rightarrow> 'st SortForJoinStep
   \<Rightarrow> QueryPipelineBuilder \<Rightarrow> 'b \<Rightarrow> 'st SortForJoinStep \<times> (error + QueryPipelineBuilder)" where
  "SortForJoinStep_transformPipeline sortingTransformPipeline formatSide s pipeline build_settings =
     (if sorting_step s \<noteq> None then
        (s, Inl (LOGICAL_ERROR ''SortForJoinStep::transformPipeline called twice''))
      else
        let sort_description = getSortDescription (getKeyNames (sorting_join s) (join_side s))
        in case front (input_streams s) of
             Inl e \<Rightarrow> (s, Inl e)
           | Inr input_stream \<Rightarrow>
               let step0 = SortingStep_new input_stream sort_description 0
                             (getSortSettings (sorting_join s)) False;
                   prefix_sort_description =
                     getPrefixSortDesctiption (sorting_join s) (join_side s);
                   step1 = (if prefix_sort_description \<noteq> []
                            then convertToFinishSorting step0 prefix_sort_description
                            else step0);
                   step2 = SortingStep_setStepDescription step1 ''Sorting for JOIN'';
                   s' = s\<lparr> sorting_step := Some step2,
                           step_description :=
                             ''Sorting for '' @ formatSide (join_side s) @ '' side of JOIN'' \<rparr>
               in (s', sortingTransformPipeline step2 pipeline build_settings))"

definition SortForJoinStep_updateOutputStream ::
  "CreateOutputStream \<Rightarrow> 'st SortForJoinStep \<Rightarrow> error + 'st SortForJoinStep" where
  "SortForJoinStep_updateOutputStream createOutputStream s =
     (case front (input_streams s) of
        Inl e \<Rightarrow> Inl e
      | Inr input_stream \<Rightarrow>
          Inr (s\<lparr> output_stream :=
                    createOutputStream input_stream (header input_stream)
                      (getDataStreamTraits s) \<rparr>))"

text \<open>
  The transform that \<open>FilledJoinStep::transformPipeline\<close> is expected to create on a
  branch of the given pipeline: bound to the branch's schema, the step's output schema,
  join and block size, the branch kind, the synthesized-totals flag, and the counter at
  the given address on a non-totals branch only.
\<close>

definition created_transform ::
  "FilledJoinStep \<Rightarrow> QueryPipelineBuilder \<Rightarrow> nat \<Rightarrow> bool \<Rightarrow> JoiningTransform" where
  "created_transform s pipeline counter totals_branch =
     \<lparr> input_header = pipeline_header pipeline,
       output_header = header (output_stream s),
       transform_join = FilledJoinStep.join s,
       transform_max_block_size = FilledJoinStep.max_block_size s,
       on_totals = totals_branch,
       default_totals = (\<not> hasTotals pipeline \<and> getTotals (FilledJoinStep.join s)),
       finish_counter = (if totals_branch then None else Some counter) \<rparr>"

section \<open>Sample values\<close>

text \<open>
  Concrete collaborators, steps and pipelines on which the theorems below are
  instantiated: a projection that appends one right-side column, merge primitives that
  succeed, a build-probe operator that is filled and carries totals, a Y-shaped operator,
  and a sort-merge operator whose keys for one side are a, a, b.
\<close>

definition sample_transformHeader :: TransformHeader where
  "sample_transformHeader h j = h @ [(''right_value'', ''UInt64'')]"

definition sample_createOutputStream :: CreateOutputStream where
  "sample_createOutputStream input_stream out_header stream_traits = \<lparr> header = out_header \<rparr>"

definition sample_join :: IJoin where
  "sample_join = \<lparr> pipelineType = BuildProbe, isFilled = True, getTotals = True \<rparr>"

definition sample_sorting_join :: IJoin where
  "sample_sorting_join = \<lparr> pipelineType = YShaped, isFilled = False, getTotals = False \<rparr>"

definition sample_step :: JoinStep where
  "sample_step =
     JoinStep_new sample_transformHeader
       \<lparr> header = [(''id'', ''UInt64'')] \<rparr>
       \<lparr> header = [(''key'', ''UInt64'')] \<rparr>
       sample_join 8192 4 False"

definition sample_yshaped_step :: JoinStep where
  "sample_yshaped_step =
     JoinStep_new sample_transformHeader
       \<lparr> header = [(''id'', ''UInt64'')] \<rparr>
       \<lparr> header = [(''key'', ''UInt64'')] \<rparr>
       sample_sorting_join 8192 4 False"

definition sample_pipeline :: "nat \<Rightarrow> bool \<Rightarrow> QueryPipelineBuilder" where
  "sample_pipeline n totals =
     \<lparr> pipeline_header = [(''id'', ''UInt64'')], num_streams = n, has_totals = totals,
       pipeline_processors = [OtherProcessor ''Source'' [(''id'', ''UInt64'')]] \<rparr>"

definition sample_joinPipelinesYShaped :: JoinPipelinesYShaped where
  "sample_joinPipelinesYShaped left right j out_header mbs collected =
     (collected @ [OtherProcessor ''MergeJoin'' out_header],
      Inr \<lparr> pipeline_header = out_header, num_streams = 1, has_totals = False,
            pipeline_processors = pipeline_processors left @ pipeline_processors right
                                  @ [OtherProcessor ''MergeJoin'' out_header] \<rparr>)"

definition sample_joinPipelinesRightLeft :: JoinPipelinesRightLeft where
  "sample_joinPipelinesRightLeft left right j out_header mbs ms keep collected =
     (collected @ [OtherProcessor ''Joining'' out_header],
      Inr \<lparr> pipeline_header = out_header, num_streams = num_streams left,
            has_totals = has_totals left,
            pipeline_processors = pipeline_processors left @ pipeline_processors right
                                  @ [OtherProcessor ''Joining'' out_header] \<rparr>)"

definition sample_filled_step :: FilledJoinStep where
  "sample_filled_step =
     \<lparr> input_streams = [\<lparr> header = [(''id'', ''UInt64'')] \<rparr>],
       output_stream = \<lparr> header = [(''id'', ''UInt64''), (''right_value'', ''UInt64'')] \<rparr>,
       processors = [],
       step_description = [],
       traits = getStorageJoinTraits,
       FilledJoinStep.join = sample_join,
       FilledJoinStep.max_block_size = 8192 \<rparr>"

definition sample_merge_join :: "JoinTableSide \<Rightarrow> SortDescription \<Rightarrow> nat FullSortingMergeJoin" where
  "sample_merge_join side pfx =
     \<lparr> getKeyNames = (\<lambda>sd. if sd = side then [''a'', ''a'', ''b''] else [''x'']),
       getPrefixSortDesctiption = (\<lambda>sd. if sd = side then pfx else []),
       getSortSettings = 0 \<rparr>"

definition sample_sortingTransformPipeline :: "(nat, unit) SortingStep_transformPipeline" where
  "sample_sortingTransformPipeline st pipeline build_settings =
     Inr (pipeline\<lparr> num_streams := 1,
           pipeline_processors := pipeline_processors pipeline
             @ [OtherProcessor ''Sorting'' (pipeline_header pipeline)] \<rparr>)"

definition sample_formatSide :: "JoinTableSide \<Rightarrow> string" where
  "sample_formatSide side = (case side of Left \<Rightarrow> ''Left'' | Right \<Rightarrow> ''Right'')"

definition sample_sort_step :: "SortDescription \<Rightarrow> nat SortForJoinStep" where
  "sample_sort_step pfx =
     SortForJoinStep_new sample_createOutputStream \<lparr> header = [(''id'', ''UInt64'')] \<rparr>
       (sample_merge_join Left pfx) Left"

section \<open>Properties of getSortDescription\<close>

lemma getSortDescription_loop_append:
  "getSortDescription_loop (xs @ ys) st = getSortDescription_loop ys (getSortDescription_loop xs st)"
proof (induction xs arbitrary: st)
  case Nil
  show ?case by simp
next
  case (Cons x xs)
  obtain u sd where st: "st = (u, sd)" by (cases st)
  show ?case unfolding st by (simp add: NameSet_insert_def Cons.IH)
qed

lemma first_occurrences_snoc:
  "first_occurrences (xs @ [x]) = first_occurrences xs @ (if x \<in> set xs then [] else [x])"
proof -
  define f where "f = (\<lambda>i. xs ! i)"
  define f' where "f' = (\<lambda>i. (xs @ [x]) ! i)"
  define P where "P = (\<lambda>i. xs ! i \<notin> set (take i xs))"
  define P' where "P' = (\<lambda>i. (xs @ [x]) ! i \<notin> set (take i (xs @ [x])))"
  have idx: "(xs @ [x]) ! i = xs ! i \<and> take i (xs @ [x]) = take i xs" if "i < length xs" for i
    using that by (simp add: nth_append)
  have flt: "filter P' [0..<length xs] = filter P [0..<length xs]"
  proof (rule filter_cong [OF refl])
    fix i assume "i \<in> set [0..<length xs]"
    then have "i < length xs" by simp
    then show "P' i = P i" unfolding P'_def P_def using idx by simp
  qed
  have mp: "map f' (filter P [0..<length xs]) = map f (filter P [0..<length xs])"
  proof (rule map_cong [OF refl])
    fix i assume "i \<in> set (filter P [0..<length xs])"
    then have "i < length xs" by simp
    then show "f' i = f i" unfolding f'_def f_def using idx by simp
  qed
  have lst: "P' (length xs) = (x \<notin> set xs)" "f' (length xs) = x"
    unfolding P'_def f'_def by simp_all
  have "first_occurrences (xs @ [x]) = map f' (filter P' ([0..<length xs] @ [length xs]))"
    unfolding first_occurrences_def f'_def P'_def by simp
  also have "\<dots> = map f' (filter P' [0..<length xs]) @ map f' (filter P' [length xs])"
    by simp
  also have "\<dots> = map f (filter P [0..<length xs]) @ (if x \<in> set xs then [] else [x])"
    unfolding flt mp using lst by simp
  finally show ?thesis
    unfolding first_occurrences_def f_def P_def .
qed

lemma getSortDescription_loop_first_occurrences:
  "getSortDescription_loop key_names ({}, []) =
     (set key_names, map SortColumnDescription (first_occurrences key_names))"
proof (induction key_names rule: rev_induct)
  case Nil
  show ?case by (simp add: first_occurrences_def)
next
  case (snoc x xs)
  show ?case
    by (simp add: getSortDescription_loop_append snoc.IH first_occurrences_snoc
        NameSet_insert_def)
qed

lemma first_occurrences_set: "set (first_occurrences xs) = set xs"
proof (induction xs rule: rev_induct)
  case Nil
  show ?case by (simp add: first_occurrences_def)
next
  case (snoc x xs)
  then show ?case by (auto simp: first_occurrences_snoc)
qed

lemma first_occurrences_distinct: "distinct (first_occurrences xs)"
proof (induction xs rule: rev_induct)
  case Nil
  show ?case by (simp add: first_occurrences_def)
next
  case (snoc x xs)
  then show ?case by (simp add: first_occurrences_snoc first_occurrences_set)
qed

lemma first_occurrences_subseq: "subseq (first_occurrences xs) xs"
proof (induction xs rule: rev_induct)
  case Nil
  show ?case by (simp add: first_occurrences_def)
next
  case (snoc x xs)
  have "subseq (first_occurrences xs @ []) (xs @ [x])"
    using snoc.IH by (intro list_emb_append_mono) auto
  moreover have "subseq (first_occurrences xs @ [x]) (xs @ [x])"
    using snoc.IH by (intro list_emb_append_mono) auto
  ultimately show ?case by (simp add: first_occurrences_snoc)
qed

text \<open>
  C5: for every list of required key-column names, the realized sort-key list is the
  input with duplicate names removed, the first occurrence of each name kept, in
  first-occurrence order: it is duplicate-free, a subsequence of the input, and names
  exactly the names of the input. For the key list [a, a, b] it is [a, b].
\<close>

theorem getSortDescription_first_occurrences:
  "map column_name (getSortDescription key_names) = first_occurrences key_names
   \<and> distinct (map column_name (getSortDescription key_names))
   \<and> subseq (map column_name (getSortDescription key_names)) key_names
   \<and> set (map column_name (getSortDescription key_names)) = set key_names
   \<and> getSortDescription [''a'', ''a'', ''b'']
       = [SortColumnDescription ''a'', SortColumnDescription ''b'']"
proof -
  have eq: "map column_name (getSortDescription key_names) = first_occurrences key_names"
    by (simp add: getSortDescription_def getSortDescription_loop_first_occurrences comp_def)
  have ex: "getSortDescription [''a'', ''a'', ''b'']
       = [SortColumnDescription ''a'', SortColumnDescription ''b'']"
    by (simp add: getSortDescription_def NameSet_insert_def)
  show ?thesis
    unfolding eq
    using first_occurrences_distinct first_occurrences_subseq first_occurrences_set ex
    by blast
qed

section \<open>JoinStep: input replacement\<close>

text \<open>
  A JoinStep is built with exactly two input descriptors, and input replacement and
  materialization keep it so.
\<close>

lemma JoinStep_new_two_inputs:
  "length (input_streams (JoinStep_new th l r j mbs ms k)) = 2"
  by (simp add: JoinStep_new_def)

lemma updateInputStream_two_inputs:
  "updateInputStream th s new idx = Inr s' \<Longrightarrow> length (input_streams s') = 2"
  by (auto simp: updateInputStream_def split: if_splits sum.splits)

lemma updatePipeline_keeps_inputs:
  "input_streams (fst (JoinStep_updatePipeline joinPipelinesYShaped joinPipelinesRightLeft s
                         pipelines)) = input_streams s"
  by (simp add: JoinStep_updatePipeline_def split: prod.splits sum.splits)

text \<open>
  C1 as stated fails: an index outside {0,1} raises nothing. On the sample step, replacing
  the input at index 2 returns the step with its right input replaced.
\<close>

theorem updateInputStream_index_two_counterexample:
  "updateInputStream sample_transformHeader sample_step \<lparr> header = [(''other'', ''String'')] \<rparr> 2
   = Inr (sample_step\<lparr> input_streams :=
            [\<lparr> header = [(''id'', ''UInt64'')] \<rparr>, \<lparr> header = [(''other'', ''String'')] \<rparr>] \<rparr>)"
  by (simp add: updateInputStream_def at_def sample_step_def JoinStep_new_def)

text \<open>
  C1, amended: for every JoinStep (holding its two input descriptors), every new input
  descriptor and every index other than 0 and 1, input replacement raises no error: it
  replaces the right input descriptor and changes nothing else, exactly as index 1 does.
\<close>

theorem updateInputStream_index_outside_replaces_right:
  assumes "length (input_streams s) = 2" and "idx \<noteq> 0" and "idx \<noteq> 1"
  shows "updateInputStream transformHeader s new_input_stream idx
           = Inr (s\<lparr> input_streams := [input_streams s ! 0, new_input_stream] \<rparr>)
         \<and> updateInputStream transformHeader s new_input_stream idx
           = updateInputStream transformHeader s new_input_stream 1"
  using assms by (simp add: updateInputStream_def at_def)

theorem updateInputStream_index_outside_replaces_right_witness:
  "updateInputStream sample_transformHeader sample_step \<lparr> header = [(''other'', ''String'')] \<rparr> 7
     = Inr (sample_step\<lparr> input_streams :=
            [\<lparr> header = [(''id'', ''UInt64'')] \<rparr>, \<lparr> header = [(''other'', ''String'')] \<rparr>] \<rparr>)"
proof -
  have len: "length (input_streams sample_step) = 2"
    by (simp add: sample_step_def JoinStep_new_def)
  have nz: "(7::nat) \<noteq> 0" "(7::nat) \<noteq> 1" by simp_all
  show ?thesis
    using updateInputStream_index_outside_replaces_right
            [OF len nz, of sample_transformHeader "\<lparr> header = [(''other'', ''String'')] \<rparr>"]
    by (simp add: sample_step_def JoinStep_new_def)
qed

text \<open>
  C2: for every JoinStep (holding its two input descriptors) and every new input
  descriptor, replacing the input at index 0 stores the new left descriptor and recomputes
  the output schema as the join operator's projection of the new left header; replacing
  the input at index 1 changes the stored right descriptor only, so the output schema is
  unchanged.
\<close>

theorem updateInputStream_left_recomputes_right_keeps:
  assumes "length (input_streams s) = 2"
  shows "updateInputStream th s new 0
           = Inr (s\<lparr> input_streams := [new, input_streams s ! 1],
                     output_stream := \<lparr> header = th (header new) (join s) \<rparr> \<rparr>)
         \<and> updateInputStream th s new 1
           = Inr (s\<lparr> input_streams := [input_streams s ! 0, new] \<rparr>)
         \<and> output_stream (s\<lparr> input_streams := [input_streams s ! 0, new] \<rparr>) = output_stream s"
  using assms by (simp add: updateInputStream_def at_def)

theorem updateInputStream_left_recomputes_right_keeps_witness:
  "updateInputStream sample_transformHeader sample_step \<lparr> header = [(''other'', ''String'')] \<rparr> 0
     = Inr (sample_step\<lparr> input_streams :=
              [\<lparr> header = [(''other'', ''String'')] \<rparr>, \<lparr> header = [(''key'', ''UInt64'')] \<rparr>],
            output_stream := \<lparr> header = [(''other'', ''String''), (''right_value'', ''UInt64'')] \<rparr> \<rparr>)
   \<and> updateInputStream sample_transformHeader sample_step \<lparr> header = [(''other'', ''String'')] \<rparr> 1
     = Inr (sample_step\<lparr> input_streams :=
              [\<lparr> header = [(''id'', ''UInt64'')] \<rparr>, \<lparr> header = [(''other'', ''String'')] \<rparr>] \<rparr>)"
proof -
  have len: "length (input_streams sample_step) = 2"
    by (simp add: sample_step_def JoinStep_new_def)
  show ?thesis
    using updateInputStream_left_recomputes_right_keeps [OF len, of sample_transformHeader "\<lparr> header = [(''other'', ''String'')] \<rparr>"]
    by (simp add: sample_step_def JoinStep_new_def sample_transformHeader_def)
qed

section \<open>JoinStep: physical materialization\<close>

text \<open>
  C6: for every JoinStep whose join operator declares the Y-shaped execution shape and
  every pair of input sub-pipelines, whatever their branch counts: when the Y-shaped merge
  yields a pipeline, materialization returns that pipeline resized to \<open>max_streams\<close>, and
  every pipeline that materialization returns has exactly \<open>max_streams\<close> branches.
\<close>

theorem updatePipeline_YShaped_resized:
  assumes "pipelineType (join s) = YShaped"
  shows "(\<forall>collected joined.
            joinPipelinesYShaped left right (join s) (header (output_stream s))
              (max_block_size s) (processors s) = (collected, Inr joined)
            \<longrightarrow> JoinStep_updatePipeline joinPipelinesYShaped joinPipelinesRightLeft s [left, right]
                = (s\<lparr> processors := collected \<rparr>, Inr (resize joined (max_streams s))))
       \<and> (\<forall>built.
            snd (JoinStep_updatePipeline joinPipelinesYShaped joinPipelinesRightLeft s [left, right])
              = Inr built
            \<longrightarrow> getNumStreams built = max_streams s)"
  using assms
  by (auto simp: JoinStep_updatePipeline_def resize_def getNumStreams_def
           split: prod.splits sum.splits)

theorem updatePipeline_YShaped_resized_witness:
  "snd (JoinStep_updatePipeline sample_joinPipelinesYShaped sample_joinPipelinesRightLeft
          sample_yshaped_step [sample_pipeline 3 False, sample_pipeline 5 False])
   = Inr \<lparr> pipeline_header = [(''id'', ''UInt64''), (''right_value'', ''UInt64'')],
           num_streams = 4, has_totals = False,
           pipeline_processors =
             [OtherProcessor ''Source'' [(''id'', ''UInt64'')],
              OtherProcessor ''Source'' [(''id'', ''UInt64'')],
              OtherProcessor ''MergeJoin'' [(''id'', ''UInt64''), (''right_value'', ''UInt64'')]] \<rparr>"
proof -
  have shape: "pipelineType (join sample_yshaped_step) = YShaped"
    by (simp add: sample_yshaped_step_def JoinStep_new_def sample_sorting_join_def)
  have merged:
    "sample_joinPipelinesYShaped (sample_pipeline 3 False) (sample_pipeline 5 False)
       (join sample_yshaped_step) (header (output_stream sample_yshaped_step))
       (max_block_size sample_yshaped_step) (processors sample_yshaped_step)
     = ([OtherProcessor ''MergeJoin'' [(''id'', ''UInt64''), (''right_value'', ''UInt64'')]],
        Inr \<lparr> pipeline_header = [(''id'', ''UInt64''), (''right_value'', ''UInt64'')],
              num_streams = 1, has_totals = False,
              pipeline_processors =
                [OtherProcessor ''Source'' [(''id'', ''UInt64'')],
                 OtherProcessor ''Source'' [(''id'', ''UInt64'')],
                 OtherProcessor ''MergeJoin''
                   [(''id'', ''UInt64''), (''right_value'', ''UInt64'')]] \<rparr>)"
    by (simp add: sample_joinPipelinesYShaped_def sample_yshaped_step_def JoinStep_new_def
        sample_pipeline_def sample_transformHeader_def)
  have ms: "max_streams sample_yshaped_step = 4"
    by (simp add: sample_yshaped_step_def JoinStep_new_def)
  show ?thesis
    using updatePipeline_YShaped_resized
            [OF shape, of sample_joinPipelinesYShaped "sample_pipeline 3 False"
               "sample_pipeline 5 False" sample_joinPipelinesRightLeft]
      merged ms
    by (simp add: resize_def)
qed

text \<open>
  C7: for every JoinStep, \<open>allowPushDownToRight\<close> is true if and only if the join operator's
  execution shape is Y-shaped; for an operator declaring BuildProbe it is false.
\<close>

theorem allowPushDownToRight_iff_YShaped:
  "allowPushDownToRight s = (pipelineType (join s) = YShaped)
   \<and> (pipelineType (join s) = BuildProbe \<longrightarrow> \<not> allowPushDownToRight s)"
  by (simp add: allowPushDownToRight_def)

theorem allowPushDownToRight_iff_YShaped_witness:
  "allowPushDownToRight sample_yshaped_step \<and> \<not> allowPushDownToRight sample_step"
proof -
  have y: "pipelineType (join sample_yshaped_step) = YShaped"
    by (simp add: sample_yshaped_step_def JoinStep_new_def sample_sorting_join_def)
  have b: "pipelineType (join sample_step) = BuildProbe"
    by (simp add: sample_step_def JoinStep_new_def sample_join_def)
  show ?thesis
    using allowPushDownToRight_iff_YShaped [of sample_yshaped_step]
      allowPushDownToRight_iff_YShaped [of sample_step] y b
    by simp
qed

text \<open>
  C8: for every JoinStep, materialization with a list of sub-pipelines whose length is
  not two raises the internal-consistency error; the step is left as it was and no
  pipeline is built.
\<close>

theorem updatePipeline_not_two_pipelines:
  assumes "length pipelines \<noteq> 2"
  shows "JoinStep_updatePipeline joinPipelinesYShaped joinPipelinesRightLeft s pipelines
         = (s, Inl (LOGICAL_ERROR ''JoinStep expect two input steps''))"
  using assms by (simp add: JoinStep_updatePipeline_def)

theorem updatePipeline_not_two_pipelines_witness:
  "JoinStep_updatePipeline sample_joinPipelinesYShaped sample_joinPipelinesRightLeft sample_step
     [sample_pipeline 1 False]
   = (sample_step, Inl (LOGICAL_ERROR ''JoinStep expect two input steps''))
   \<and> JoinStep_updatePipeline sample_joinPipelinesYShaped sample_joinPipelinesRightLeft sample_step
     [sample_pipeline 1 False, sample_pipeline 2 False, sample_pipeline 3 True]
   = (sample_step, Inl (LOGICAL_ERROR ''JoinStep expect two input steps''))"
proof -
  have one: "length [sample_pipeline 1 False] \<noteq> 2" by simp
  have three: "length [sample_pipeline 1 False, sample_pipeline 2 False, sample_pipeline 3 True] \<noteq> 2"
    by simp
  show ?thesis
    using updatePipeline_not_two_pipelines [OF one] updatePipeline_not_two_pipelines [OF three]
    by simp
qed

section \<open>FilledJoinStep: pipeline materialization\<close>

lemma FilledJoinStep_transformPipeline_eq:
  "FilledJoinStep_transformPipeline s store pipeline =
     (store @ [getNumStreams pipeline],
      pipeline\<lparr> pipeline_header :=
                  (if getNumStreams pipeline = 0 \<and> \<not> hasTotals pipeline \<and> \<not> getTotals (FilledJoinStep.join s)
                   then pipeline_header pipeline else header (output_stream s)),
                has_totals := (hasTotals pipeline \<or> getTotals (FilledJoinStep.join s)),
                pipeline_processors :=
                  pipeline_processors pipeline
                  @ replicate (getNumStreams pipeline)
                      (JoiningTransformProcessor (created_transform s pipeline (length store) False))
                  @ (if hasTotals pipeline \<or> getTotals (FilledJoinStep.join s)
                     then [JoiningTransformProcessor (created_transform s pipeline (length store) True)]
                     else []) \<rparr>)"
  by (cases "num_streams pipeline")
     (auto simp: FilledJoinStep_transformPipeline_def hasTotals_def getNumStreams_def
       addDefaultTotals_def make_shared_FinishCounter_def addSimpleTransform_def
       created_transform_def Let_def)

text \<open>
  C3: for every FilledJoinStep pipeline materialization, a default totals branch is
  synthesized (the pipeline has a totals branch afterwards and had none before) exactly
  when the upstream pipeline has no totals branch and the join operator declares a totals
  row. One join transform is created per branch and appended to the pipeline: one for
  each non-totals branch, then one for the totals branch if there is one. Every created
  transform carries the synthesized-totals flag, true exactly when the totals branch was
  synthesized; every non-totals transform holds the address of the one new finish
  counter, which is seeded with the pipeline's number of non-totals branches, and the
  totals transform holds a null counter.
\<close>

theorem FilledJoinStep_transformPipeline_totals_and_counter:
  assumes "FilledJoinStep_transformPipeline s store pipeline = (store', pipeline')"
  shows "((hasTotals pipeline' \<and> \<not> hasTotals pipeline)
            = (\<not> hasTotals pipeline \<and> getTotals (FilledJoinStep.join s)))
       \<and> hasTotals pipeline' = (hasTotals pipeline \<or> getTotals (FilledJoinStep.join s))
       \<and> getNumStreams pipeline' = getNumStreams pipeline
       \<and> store' = store @ [getNumStreams pipeline]
       \<and> pipeline_processors pipeline' =
            pipeline_processors pipeline
            @ replicate (getNumStreams pipeline')
                (JoiningTransformProcessor (created_transform s pipeline (length store) False))
            @ (if hasTotals pipeline'
               then [JoiningTransformProcessor (created_transform s pipeline (length store) True)]
               else [])
       \<and> length (drop (length (pipeline_processors pipeline)) (pipeline_processors pipeline'))
           = getNumStreams pipeline' + (if hasTotals pipeline' then 1 else 0)
       \<and> (\<forall>created \<in> set (drop (length (pipeline_processors pipeline))
                              (pipeline_processors pipeline')).
            \<exists>t. created = JoiningTransformProcessor t
              \<and> default_totals t = (hasTotals pipeline' \<and> \<not> hasTotals pipeline)
              \<and> finish_counter t = (if on_totals t then None else Some (length store)))
       \<and> store' ! length store = getNumStreams pipeline"
proof -
  define j where "j = getTotals (FilledJoinStep.join s)"
  define main_t where
    "main_t = JoiningTransformProcessor (created_transform s pipeline (length store) False)"
  define totals_t where
    "totals_t = JoiningTransformProcessor (created_transform s pipeline (length store) True)"
  define created where
    "created = replicate (getNumStreams pipeline) main_t
               @ (if hasTotals pipeline \<or> j then [totals_t] else [])"
  have st: "store' = fst (FilledJoinStep_transformPipeline s store pipeline)"
    and p': "pipeline' = snd (FilledJoinStep_transformPipeline s store pipeline)"
    unfolding assms by simp_all
  have st: "store' = store @ [getNumStreams pipeline]"
    unfolding st FilledJoinStep_transformPipeline_eq by simp
  have procs: "pipeline_processors pipeline' = pipeline_processors pipeline @ created"
    unfolding p' FilledJoinStep_transformPipeline_eq created_def main_t_def totals_t_def j_def
    by simp
  have tot: "hasTotals pipeline' = (hasTotals pipeline \<or> j)"
    unfolding p' FilledJoinStep_transformPipeline_eq j_def
    by (simp add: hasTotals_def)
  have num: "getNumStreams pipeline' = getNumStreams pipeline"
    unfolding p' FilledJoinStep_transformPipeline_eq
    by (simp add: getNumStreams_def)
  have dr: "drop (length (pipeline_processors pipeline)) (pipeline_processors pipeline') = created"
    by (simp add: procs)
  have len: "length created = getNumStreams pipeline' + (if hasTotals pipeline' then 1 else 0)"
    by (simp add: created_def tot num)
  have main_ok: "default_totals (created_transform s pipeline (length store) False)
                   = (hasTotals pipeline' \<and> \<not> hasTotals pipeline)
                 \<and> finish_counter (created_transform s pipeline (length store) False)
                   = (if on_totals (created_transform s pipeline (length store) False)
                      then None else Some (length store))"
    unfolding tot j_def by (simp add: created_transform_def) blast
  have tot_ok: "default_totals (created_transform s pipeline (length store) True)
                   = (hasTotals pipeline' \<and> \<not> hasTotals pipeline)
                 \<and> finish_counter (created_transform s pipeline (length store) True)
                   = (if on_totals (created_transform s pipeline (length store) True)
                      then None else Some (length store))"
    unfolding tot j_def by (simp add: created_transform_def) blast
  have each: "\<exists>t. c = JoiningTransformProcessor t
              \<and> default_totals t = (hasTotals pipeline' \<and> \<not> hasTotals pipeline)
              \<and> finish_counter t = (if on_totals t then None else Some (length store))"
    if "c \<in> set created" for c
  proof -
    from that have "c = main_t \<or> c = totals_t"
      unfolding created_def by (cases "hasTotals pipeline \<or> j") auto
    then show ?thesis
      unfolding main_t_def totals_t_def using main_ok tot_ok by blast
  qed
  have synth: "(hasTotals pipeline' \<and> \<not> hasTotals pipeline)
            = (\<not> hasTotals pipeline \<and> getTotals (FilledJoinStep.join s))"
    unfolding tot j_def by blast
  have tot': "hasTotals pipeline' = (hasTotals pipeline \<or> getTotals (FilledJoinStep.join s))"
    unfolding tot j_def ..
  have procs': "pipeline_processors pipeline' =
            pipeline_processors pipeline
            @ replicate (getNumStreams pipeline')
                (JoiningTransformProcessor (created_transform s pipeline (length store) False))
            @ (if hasTotals pipeline'
               then [JoiningTransformProcessor (created_transform s pipeline (length store) True)]
               else [])"
    unfolding procs created_def tot num main_t_def totals_t_def ..
  have seeded: "store' ! length store = getNumStreams pipeline"
    unfolding st by simp
  have len': "length (drop (length (pipeline_processors pipeline)) (pipeline_processors pipeline'))
           = getNumStreams pipeline' + (if hasTotals pipeline' then 1 else 0)"
    unfolding dr by (rule len)
  have each': "\<forall>created \<in> set (drop (length (pipeline_processors pipeline))
                              (pipeline_processors pipeline')).
            \<exists>t. created = JoiningTransformProcessor t
              \<and> default_totals t = (hasTotals pipeline' \<and> \<not> hasTotals pipeline)
              \<and> finish_counter t = (if on_totals t then None else Some (length store))"
    unfolding dr using each by blast
  from synth tot' num st procs' len' each' seeded show ?thesis
    by (intro conjI)
qed

theorem FilledJoinStep_transformPipeline_totals_and_counter_witness:
  "FilledJoinStep_transformPipeline sample_filled_step [7] (sample_pipeline 2 False)
   = ([7, 2],
      \<lparr> pipeline_header = [(''id'', ''UInt64''), (''right_value'', ''UInt64'')],
        num_streams = 2, has_totals = True,
        pipeline_processors =
          [OtherProcessor ''Source'' [(''id'', ''UInt64'')],
           JoiningTransformProcessor
             (created_transform sample_filled_step (sample_pipeline 2 False) 1 False),
           JoiningTransformProcessor
             (created_transform sample_filled_step (sample_pipeline 2 False) 1 False),
           JoiningTransformProcessor
             (created_transform sample_filled_step (sample_pipeline 2 False) 1 True)] \<rparr>)
   \<and> created_transform sample_filled_step (sample_pipeline 2 False) 1 False
     = \<lparr> input_header = [(''id'', ''UInt64'')],
         output_header = [(''id'', ''UInt64''), (''right_value'', ''UInt64'')],
         transform_join = sample_join, transform_max_block_size = 8192,
         on_totals = False, default_totals = True, finish_counter = Some 1 \<rparr>
   \<and> created_transform sample_filled_step (sample_pipeline 2 False) 1 True
     = \<lparr> input_header = [(''id'', ''UInt64'')],
         output_header = [(''id'', ''UInt64''), (''right_value'', ''UInt64'')],
         transform_join = sample_join, transform_max_block_size = 8192,
         on_totals = True, default_totals = True, finish_counter = None \<rparr>"
proof -
  obtain store' pipeline' where run:
    "FilledJoinStep_transformPipeline sample_filled_step [7] (sample_pipeline 2 False)
       = (store', pipeline')"
    by (cases "FilledJoinStep_transformPipeline sample_filled_step [7] (sample_pipeline 2 False)")
  have hdr: "pipeline_header pipeline' = [(''id'', ''UInt64''), (''right_value'', ''UInt64'')]"
    and tot: "hasTotals pipeline'"
    and more: "QueryPipelineBuilder.more pipeline' = ()"
    using run
    by (auto simp: FilledJoinStep_transformPipeline_eq sample_filled_step_def
        sample_pipeline_def sample_join_def hasTotals_def getNumStreams_def)
  have pre: "\<not> hasTotals (sample_pipeline 2 False)"
    "getNumStreams (sample_pipeline 2 False) = 2"
    "pipeline_processors (sample_pipeline 2 False) = [OtherProcessor ''Source'' [(''id'', ''UInt64'')]]"
    by (simp_all add: sample_pipeline_def hasTotals_def getNumStreams_def)
  note main = FilledJoinStep_transformPipeline_totals_and_counter [OF run]
  have p': "pipeline' =
      \<lparr> pipeline_header = [(''id'', ''UInt64''), (''right_value'', ''UInt64'')],
        num_streams = 2, has_totals = True,
        pipeline_processors =
          [OtherProcessor ''Source'' [(''id'', ''UInt64'')],
           JoiningTransformProcessor
             (created_transform sample_filled_step (sample_pipeline 2 False) 1 False),
           JoiningTransformProcessor
             (created_transform sample_filled_step (sample_pipeline 2 False) 1 False),
           JoiningTransformProcessor
             (created_transform sample_filled_step (sample_pipeline 2 False) 1 True)] \<rparr>"
    using main hdr tot more pre
    by (cases pipeline') (simp add: hasTotals_def getNumStreams_def numeral_2_eq_2)
  have s': "store' = [7, 2]" using main pre by simp
  have c: "created_transform sample_filled_step (sample_pipeline 2 False) 1 False
     = \<lparr> input_header = [(''id'', ''UInt64'')],
         output_header = [(''id'', ''UInt64''), (''right_value'', ''UInt64'')],
         transform_join = sample_join, transform_max_block_size = 8192,
         on_totals = False, default_totals = True, finish_counter = Some 1 \<rparr>"
    "created_transform sample_filled_step (sample_pipeline 2 False) 1 True
     = \<lparr> input_header = [(''id'', ''UInt64'')],
         output_header = [(''id'', ''UInt64''), (''right_value'', ''UInt64'')],
         transform_join = sample_join, transform_max_block_size = 8192,
         on_totals = True, default_totals = True, finish_counter = None \<rparr>"
    by (simp_all add: created_transform_def sample_filled_step_def sample_pipeline_def
        sample_join_def hasTotals_def)
  show ?thesis using run p' s' c by simp
qed

section \<open>SortForJoinStep: pipeline materialization\<close>

text \<open>
  C4: for every first materialization of a SortForJoinStep (no sorting sub-step built
  yet), the sub-step built is a sort over the deduplicated key list of the step's side
  with row limit 0, and it is what transforms the pipeline. It is a finish sort
  constrained to the operator's guaranteed sort prefix if and only if that prefix is not
  empty; with an empty prefix it is the full sort as constructed.
\<close>

theorem SortForJoinStep_full_or_finish_sort:
  assumes "sorting_step s = None"
    and "input_streams s = input_stream # others"
  shows "\<exists>built.
           sorting_step (fst (SortForJoinStep_transformPipeline sortingTransformPipeline
                                formatSide s pipeline build_settings)) = Some built
         \<and> snd (SortForJoinStep_transformPipeline sortingTransformPipeline
                  formatSide s pipeline build_settings)
             = sortingTransformPipeline built pipeline build_settings
         \<and> sorting_input_stream built = input_stream
         \<and> result_description built
             = getSortDescription (getKeyNames (sorting_join s) (join_side s))
         \<and> limit built = 0
         \<and> (sorting_type built = FinishSorting)
             = (getPrefixSortDesctiption (sorting_join s) (join_side s) \<noteq> [])
         \<and> (sorting_type built = Full)
             = (getPrefixSortDesctiption (sorting_join s) (join_side s) = [])
         \<and> prefix_description built = getPrefixSortDesctiption (sorting_join s) (join_side s)
         \<and> (getPrefixSortDesctiption (sorting_join s) (join_side s) \<noteq> [] \<longrightarrow>
              built = SortingStep_setStepDescription
                        (convertToFinishSorting
                           (SortingStep_new input_stream
                              (getSortDescription (getKeyNames (sorting_join s) (join_side s)))
                              0 (getSortSettings (sorting_join s)) False)
                           (getPrefixSortDesctiption (sorting_join s) (join_side s)))
                        ''Sorting for JOIN'')
         \<and> (getPrefixSortDesctiption (sorting_join s) (join_side s) = [] \<longrightarrow>
              built = SortingStep_setStepDescription
                        (SortingStep_new input_stream
                           (getSortDescription (getKeyNames (sorting_join s) (join_side s)))
                           0 (getSortSettings (sorting_join s)) False)
                        ''Sorting for JOIN'')"
  using assms
  by (simp add: SortForJoinStep_transformPipeline_def front_def Let_def SortingStep_new_def
      convertToFinishSorting_def SortingStep_setStepDescription_def)

theorem SortForJoinStep_full_or_finish_sort_witness:
  "map_option (\<lambda>st. (sorting_type st, result_description st, prefix_description st, limit st))
     (sorting_step (fst (SortForJoinStep_transformPipeline sample_sortingTransformPipeline
        sample_formatSide (sample_sort_step [SortColumnDescription ''a'']) (sample_pipeline 3 False) ())))
   = Some (FinishSorting, [SortColumnDescription ''a'', SortColumnDescription ''b''],
           [SortColumnDescription ''a''], 0)
   \<and> map_option (\<lambda>st. (sorting_type st, result_description st, prefix_description st, limit st))
     (sorting_step (fst (SortForJoinStep_transformPipeline sample_sortingTransformPipeline
        sample_formatSide (sample_sort_step []) (sample_pipeline 3 False) ())))
   = Some (Full, [SortColumnDescription ''a'', SortColumnDescription ''b''], [], 0)"
proof -
  have unbuilt: "sorting_step (sample_sort_step pfx) = None" for pfx
    by (simp add: sample_sort_step_def SortForJoinStep_new_def)
  have inputs: "input_streams (sample_sort_step pfx) = \<lparr> header = [(''id'', ''UInt64'')] \<rparr> # []"
    for pfx
    by (simp add: sample_sort_step_def SortForJoinStep_new_def)
  have keys: "getSortDescription (getKeyNames (sorting_join (sample_sort_step pfx))
                 (join_side (sample_sort_step pfx)))
              = [SortColumnDescription ''a'', SortColumnDescription ''b'']" for pfx
    by (simp add: sample_sort_step_def SortForJoinStep_new_def sample_merge_join_def
        getSortDescription_def NameSet_insert_def)
  have pre: "getPrefixSortDesctiption (sorting_join (sample_sort_step pfx))
                 (join_side (sample_sort_step pfx)) = pfx" for pfx
    by (simp add: sample_sort_step_def SortForJoinStep_new_def sample_merge_join_def)
  from SortForJoinStep_full_or_finish_sort
         [OF unbuilt [of "[SortColumnDescription ''a'']"] inputs [of "[SortColumnDescription ''a'']"],
          where sortingTransformPipeline = sample_sortingTransformPipeline
            and formatSide = sample_formatSide and pipeline = "sample_pipeline 3 False"
            and build_settings = "()"]
  obtain b1 where b1:
    "sorting_step (fst (SortForJoinStep_transformPipeline sample_sortingTransformPipeline
        sample_formatSide (sample_sort_step [SortColumnDescription ''a'']) (sample_pipeline 3 False) ()))
       = Some b1"
    "result_description b1 = [SortColumnDescription ''a'', SortColumnDescription ''b'']"
    "limit b1 = 0" "sorting_type b1 = FinishSorting"
    "prefix_description b1 = [SortColumnDescription ''a'']"
    unfolding keys pre by auto
  from SortForJoinStep_full_or_finish_sort
         [OF unbuilt [of "[]"] inputs [of "[]"],
          where sortingTransformPipeline = sample_sortingTransformPipeline
            and formatSide = sample_formatSide and pipeline = "sample_pipeline 3 False"
            and build_settings = "()"]
  obtain b2 where b2:
    "sorting_step (fst (SortForJoinStep_transformPipeline sample_sortingTransformPipeline
        sample_formatSide (sample_sort_step []) (sample_pipeline 3 False) ()))
       = Some b2"
    "result_description b2 = [SortColumnDescription ''a'', SortColumnDescription ''b'']"
    "limit b2 = 0" "sorting_type b2 = Full"
    "prefix_description b2 = []"
    unfolding keys pre by auto
  show ?thesis using b1 b2 by simp
qed

text \<open>
  C9: for every SortForJoinStep, materialization in a state where the sorting sub-step has
  already been built raises the internal-consistency error and leaves the step as it was;
  and a first materialization leaves the sub-step built, so that a second invocation on
  the same instance raises that error.
\<close>

theorem SortForJoinStep_transformPipeline_twice:
  "(sorting_step s \<noteq> None \<longrightarrow>
      SortForJoinStep_transformPipeline sortingTransformPipeline formatSide s pipeline build_settings
        = (s, Inl (LOGICAL_ERROR ''SortForJoinStep::transformPipeline called twice'')))
   \<and> (sorting_step s = None \<and> input_streams s \<noteq> [] \<longrightarrow>
        SortForJoinStep_transformPipeline sortingTransformPipeline formatSide
          (fst (SortForJoinStep_transformPipeline sortingTransformPipeline formatSide s
                  pipeline build_settings))
          pipeline' build_settings'
        = (fst (SortForJoinStep_transformPipeline sortingTransformPipeline formatSide s
                  pipeline build_settings),
           Inl (LOGICAL_ERROR ''SortForJoinStep::transformPipeline called twice'')))"
  by (cases "input_streams s")
     (simp_all add: SortForJoinStep_transformPipeline_def front_def Let_def)

theorem SortForJoinStep_transformPipeline_twice_witness:
  "SortForJoinStep_transformPipeline sample_sortingTransformPipeline sample_formatSide
     (fst (SortForJoinStep_transformPipeline sample_sortingTransformPipeline sample_formatSide
             (sample_sort_step []) (sample_pipeline 3 False) ()))
     (sample_pipeline 1 False) ()
   = (fst (SortForJoinStep_transformPipeline sample_sortingTransformPipeline sample_formatSide
             (sample_sort_step []) (sample_pipeline 3 False) ()),
      Inl (LOGICAL_ERROR ''SortForJoinStep::transformPipeline called twice''))
   \<and> sorting_step (fst (SortForJoinStep_transformPipeline sample_sortingTransformPipeline
         sample_formatSide (sample_sort_step []) (sample_pipeline 3 False) ())) \<noteq> None"
proof -
  have unbuilt: "sorting_step (sample_sort_step []) = None"
    by (simp add: sample_sort_step_def SortForJoinStep_new_def)
  have inputs: "input_streams (sample_sort_step []) \<noteq> []"
    by (simp add: sample_sort_step_def SortForJoinStep_new_def)
  have built: "sorting_step (fst (SortForJoinStep_transformPipeline sample_sortingTransformPipeline
         sample_formatSide (sample_sort_step []) (sample_pipeline 3 False) ())) \<noteq> None"
    by (simp add: SortForJoinStep_transformPipeline_def front_def Let_def sample_sort_step_def
        SortForJoinStep_new_def)
  show ?thesis
    using SortForJoinStep_transformPipeline_twice [of "sample_sort_step []"
        sample_sortingTransformPipeline sample_formatSide "sample_pipeline 3 False" "()"
        "sample_pipeline 1 False" "()"]
      unbuilt inputs built
    by simp
qed

section \<open>Step traits\<close>

lemma FilledJoinStep_new_sample:
  "FilledJoinStep_new sample_transformHeader sample_createOutputStream
     \<lparr> header = [(''id'', ''UInt64'')] \<rparr> sample_join 8192 = Inr sample_filled_step"
  by (simp add: FilledJoinStep_new_def sample_filled_step_def sample_join_def
      sample_createOutputStream_def sample_transformHeader_def)

text \<open>
  C10: every FilledJoinStep is constructed (the operator being filled, construction
  succeeds) with the traits: distinct columns not preserved, not a single stream, number
  of streams preserved, sorting not preserved, number of rows not preserved. Every
  SortForJoinStep is constructed with the traits: distinct columns preserved, a single
  stream, number of streams not preserved, sorting not preserved, number of rows
  preserved. No operation that returns a changed step changes its traits:
  \<open>updateOutputStream\<close> of either step and \<open>transformPipeline\<close> of SortForJoinStep
  (\<open>transformPipeline\<close> of FilledJoinStep returns no changed step).
\<close>

theorem step_traits_fixed:
  "(isFilled join' \<longrightarrow>
      (\<exists>s. FilledJoinStep_new transformHeader createOutputStream input_stream join'
              max_block_size' = Inr s))
   \<and> (\<forall>s. FilledJoinStep_new transformHeader createOutputStream input_stream join'
              max_block_size' = Inr s \<longrightarrow>
          traits s =
            \<lparr> data_stream_traits =
                \<lparr> preserves_distinct_columns = False, returns_single_stream = False,
                  preserves_number_of_streams = True, preserves_sorting = False \<rparr>,
              transform_traits = \<lparr> preserves_number_of_rows = False \<rparr> \<rparr>)
   \<and> (\<forall>f'. FilledJoinStep_updateOutputStream transformHeader createOutputStream f = Inr f'
          \<longrightarrow> traits f' = traits f)
   \<and> traits (SortForJoinStep_new createOutputStream input_stream join_ptr side) =
        \<lparr> data_stream_traits =
            \<lparr> preserves_distinct_columns = True, returns_single_stream = True,
              preserves_number_of_streams = False, preserves_sorting = False \<rparr>,
          transform_traits = \<lparr> preserves_number_of_rows = True \<rparr> \<rparr>
   \<and> traits (fst (SortForJoinStep_transformPipeline sortingTransformPipeline formatSide g
                     pipeline build_settings)) = traits g
   \<and> (\<forall>g'. SortForJoinStep_updateOutputStream createOutputStream g = Inr g'
          \<longrightarrow> traits g' = traits g)"
proof -
  have a: "isFilled join' \<longrightarrow>
      (\<exists>s. FilledJoinStep_new transformHeader createOutputStream input_stream join'
              max_block_size' = Inr s)"
    by (simp add: FilledJoinStep_new_def)
  have b: "\<forall>s. FilledJoinStep_new transformHeader createOutputStream input_stream join'
              max_block_size' = Inr s \<longrightarrow>
          traits s =
            \<lparr> data_stream_traits =
                \<lparr> preserves_distinct_columns = False, returns_single_stream = False,
                  preserves_number_of_streams = True, preserves_sorting = False \<rparr>,
              transform_traits = \<lparr> preserves_number_of_rows = False \<rparr> \<rparr>"
    by (auto simp: FilledJoinStep_new_def getStorageJoinTraits_def split: if_splits)
  have c: "\<forall>f'. FilledJoinStep_updateOutputStream transformHeader createOutputStream f = Inr f'
          \<longrightarrow> traits f' = traits f"
    by (auto simp: FilledJoinStep_updateOutputStream_def split: sum.splits)
  have d: "traits (SortForJoinStep_new createOutputStream input_stream join_ptr side) =
        \<lparr> data_stream_traits =
            \<lparr> preserves_distinct_columns = True, returns_single_stream = True,
              preserves_number_of_streams = False, preserves_sorting = False \<rparr>,
          transform_traits = \<lparr> preserves_number_of_rows = True \<rparr> \<rparr>"
    by (simp add: SortForJoinStep_new_def getSortTraits_def)
  have e: "traits (fst (SortForJoinStep_transformPipeline sortingTransformPipeline formatSide g
                     pipeline build_settings)) = traits g"
    by (simp add: SortForJoinStep_transformPipeline_def Let_def split: sum.splits)
  have f: "\<forall>g'. SortForJoinStep_updateOutputStream createOutputStream g = Inr g'
          \<longrightarrow> traits g' = traits g"
    by (auto simp: SortForJoinStep_updateOutputStream_def split: sum.splits)
  from a b c d e f show ?thesis by blast
qed

theorem step_traits_fixed_witness:
  "traits sample_filled_step =
     \<lparr> data_stream_traits =
         \<lparr> preserves_distinct_columns = False, returns_single_stream = False,
           preserves_number_of_streams = True, preserves_sorting = False \<rparr>,
       transform_traits = \<lparr> preserves_number_of_rows = False \<rparr> \<rparr>
   \<and> traits (fst (SortForJoinStep_transformPipeline sample_sortingTransformPipeline
                sample_formatSide (sample_sort_step []) (sample_pipeline 3 False) ())) =
     \<lparr> data_stream_traits =
         \<lparr> preserves_distinct_columns = True, returns_single_stream = True,
           preserves_number_of_streams = False, preserves_sorting = False \<rparr>,
       transform_traits = \<lparr> preserves_number_of_rows = True \<rparr> \<rparr>"
proof -
  note fixed = step_traits_fixed
      [where join' = sample_join and transformHeader = sample_transformHeader
         and createOutputStream = sample_createOutputStream
         and input_stream = "\<lparr> header = [(''id'', ''UInt64'')] \<rparr>"
         and max_block_size' = 8192 and f = sample_filled_step
         and join_ptr = "sample_merge_join Left []" and side = Left
         and sortingTransformPipeline = sample_sortingTransformPipeline
         and formatSide = sample_formatSide and g = "sample_sort_step []"
         and pipeline = "sample_pipeline 3 False" and build_settings = "()"]
  have filled: "isFilled sample_join" by (simp add: sample_join_def)
  show ?thesis
    using fixed filled FilledJoinStep_new_sample
    by (simp add: sample_sort_step_def)
qed

end
